theory Spec2Isabelle
  imports Main "HOL-Library.Sublist"
begin

section \<open>Python values\<close>

text \<open>
  A Python \<open>str\<close> is a sequence of Unicode code points; a code point is a natural number.
  Literals of the source are written \<open>ascii ''...''\<close>.
\<close>

type_synonym pystr = "nat list"

definition ascii :: "string \<Rightarrow> pystr" where
  "ascii s = map of_char s"

text \<open>
  The values that \<open>xmltodict.parse\<close> and \<open>response.json()\<close> build, and that the program
  passes around: \<open>None\<close>, \<open>bool\<close>, \<open>int\<close>, \<open>str\<close>, \<open>list\<close> and \<open>dict\<close> with \<open>str\<close> keys.
  A \<open>dict\<close> is an association list in insertion order; lookup takes the first entry of a key.
  JSON floating-point numbers are not represented.
\<close>

datatype pyval =
    PNone
  | PBool bool
  | PInt int
  | PStr pystr
  | PList "pyval list"
  | PDict "(pystr \<times> pyval) list"

datatype py_error =
    AttributeError
  | TypeError
  | KeyError
  | JSONDecodeError
  | ExpatError
  | RequestException
  | OSError

text \<open>\<open>d.get(k, default)\<close>: only a \<open>dict\<close> has the method.\<close>

definition py_get :: "pyval \<Rightarrow> pystr \<Rightarrow> pyval \<Rightarrow> py_error + pyval" where
  "py_get d k dflt =
     (case d of
        PDict kvs \<Rightarrow> (case map_of kvs k of Some v \<Rightarrow> Inr v | None \<Rightarrow> Inr dflt)
      | _ \<Rightarrow> Inl AttributeError)"

text \<open>\<open>for x in v\<close>: a list gives its elements, a dict its keys, a str its characters.\<close>

definition py_iter :: "pyval \<Rightarrow> py_error + pyval list" where
  "py_iter v =
     (case v of
        PList xs \<Rightarrow> Inr xs
      | PDict kvs \<Rightarrow> Inr (map (\<lambda>kv. PStr (fst kv)) kvs)
      | PStr s \<Rightarrow> Inr (map (\<lambda>c. PStr [c]) s)
      | _ \<Rightarrow> Inl TypeError)"

text \<open>Truth value of an object, as \<open>if v:\<close> and \<open>not v\<close> test it.\<close>

definition py_truthy :: "pyval \<Rightarrow> bool" where
  "py_truthy v =
     (case v of
        PNone \<Rightarrow> False
      | PBool b \<Rightarrow> b
      | PInt i \<Rightarrow> i \<noteq> 0
      | PStr s \<Rightarrow> s \<noteq> []
      | PList xs \<Rightarrow> xs \<noteq> []
      | PDict kvs \<Rightarrow> kvs \<noteq> [])"

text \<open>\<open>k in v\<close> for a str \<open>k\<close>: key test on a dict, substring test on a str, membership in a list.\<close>

definition py_contains :: "pystr \<Rightarrow> pyval \<Rightarrow> py_error + bool" where
  "py_contains k v =
     (case v of
        PDict kvs \<Rightarrow> Inr (map_of kvs k \<noteq> None)
      | PStr s \<Rightarrow> Inr (sublist k s)
      | PList xs \<Rightarrow> Inr (PStr k \<in> set xs)
      | _ \<Rightarrow> Inl TypeError)"

text \<open>\<open>v[k]\<close> for a str \<open>k\<close>: only a dict can be indexed by a str.\<close>

definition py_getitem :: "pyval \<Rightarrow> pystr \<Rightarrow> py_error + pyval" where
  "py_getitem v k =
     (case v of
        PDict kvs \<Rightarrow> (case map_of kvs k of Some x \<Rightarrow> Inr x | None \<Rightarrow> Inl KeyError)
      | _ \<Rightarrow> Inl TypeError)"

text \<open>\<open>str.isspace\<close> of one code point, and \<open>s.strip()\<close>.\<close>

definition py_isspace :: "nat \<Rightarrow> bool" where
  "py_isspace c =
     ((9 \<le> c \<and> c \<le> 13) \<or> (28 \<le> c \<and> c \<le> 32) \<or> c = 133 \<or> c = 160 \<or> c = 5760
      \<or> (8192 \<le> c \<and> c \<le> 8202) \<or> c = 8232 \<or> c = 8233 \<or> c = 8239 \<or> c = 8287
      \<or> c = 12288)"

definition py_strip :: "pystr \<Rightarrow> pystr" where
  "py_strip s = rev (dropWhile py_isspace (rev (dropWhile py_isspace s)))"

text \<open>Decimal digits of an \<open>int\<close>, as \<open>str\<close> prints it.\<close>

function dec_nat :: "nat \<Rightarrow> pystr" where
  "dec_nat n = (if n < 10 then [48 + n] else dec_nat (n div 10) @ [48 + n mod 10])"
  by pat_completeness auto
termination
  by (relation "measure id") auto

declare dec_nat.simps [simp del]

definition py_str_int :: "int \<Rightarrow> pystr" where
  "py_str_int i = (if i < 0 then 45 # dec_nat (nat (- i)) else dec_nat (nat i))"

text \<open>
  \<open>format(v, '')\<close>, which an f-string applies to each \<open>{v}\<close>. The \<open>repr\<close> of a list or of a
  dict is the interpreter's and is taken as the parameter \<open>repr\<close>.
\<close>

definition py_format :: "(pyval \<Rightarrow> pystr) \<Rightarrow> pyval \<Rightarrow> pystr" where
  "py_format repr v =
     (case v of
        PStr s \<Rightarrow> s
      | PNone \<Rightarrow> ascii ''None''
      | PBool b \<Rightarrow> (if b then ascii ''True'' else ascii ''False'')
      | PInt i \<Rightarrow> py_str_int i
      | _ \<Rightarrow> repr v)"

text \<open>\<open>sep.join(v)\<close>: every item of the iterable has to be a str.\<close>

fun join_strs :: "pystr \<Rightarrow> pyval list \<Rightarrow> py_error + pystr" where
  "join_strs sep [] = Inr []"
| "join_strs sep [PStr s] = Inr s"
| "join_strs sep (PStr s # x # xs) =
     (case join_strs sep (x # xs) of Inl e \<Rightarrow> Inl e | Inr r \<Rightarrow> Inr (s @ sep @ r))"
| "join_strs sep (_ # xs) = Inl TypeError"

definition py_join :: "pystr \<Rightarrow> pyval \<Rightarrow> py_error + pystr" where
  "py_join sep v = (case py_iter v of Inl e \<Rightarrow> Inl e | Inr xs \<Rightarrow> join_strs sep xs)"

section \<open>The environment and the trace of effects\<close>

record response =
  status_code :: int
  resp_text :: pystr
  resp_json :: "py_error + pyval"

text \<open>
  What the program calls outside itself: \<open>requests.get(url, params=...)\<close>,
  \<open>xmltodict.parse\<close>, the interpreter's \<open>repr\<close>, and \<open>open(filename, "w")\<close>
  (\<open>None\<close> when the file opens).
\<close>

record env =
  requests_get :: "pystr \<Rightarrow> pyval \<Rightarrow> py_error + response"
  xmltodict_parse :: "pyval \<Rightarrow> py_error + pyval"
  py_repr :: "pyval \<Rightarrow> pystr"
  open_w :: "pystr \<Rightarrow> py_error option"

text \<open>
  Every effect is appended to a trace: a network request with its URL and parameters,
  a \<open>print\<close> with its arguments, a \<open>json.dump\<close> of a value into a file.
\<close>

datatype event =
    Http_get pystr pyval
  | Print "pyval list"
  | Json_dump pystr pyval

type_synonym trace = "event list"

section \<open>Search: \<open>fetch_pubmed_papers\<close>\<close>

definition esearch_url :: pystr where
  "esearch_url = ascii ''https://eutils.ncbi.nlm.nih.gov/entrez/eutils/esearch.fcgi''"

definition esearch_params :: "pyval \<Rightarrow> pyval" where
  "esearch_params query =
     PDict [(ascii ''db'', PStr (ascii ''pubmed'')),
            (ascii ''term'', query),
            (ascii ''retmode'', PStr (ascii ''json'')),
            (ascii ''retmax'', PInt 10)]"

definition fetch_pubmed_papers :: "env \<Rightarrow> pyval \<Rightarrow> trace \<Rightarrow> (py_error + pyval) \<times> trace" where
  "fetch_pubmed_papers ev query tr =
     (let tr1 = tr @ [Http_get esearch_url (esearch_params query)] in
      case requests_get ev esearch_url (esearch_params query) of
        Inl e \<Rightarrow> (Inl e, tr1)
      | Inr response \<Rightarrow>
          if status_code response = 200 then
            (case resp_json response of
               Inl e \<Rightarrow> (Inl e, tr1)
             | Inr data \<Rightarrow>
                 (case py_get data (ascii ''esearchresult'') (PDict []) of
                    Inl e \<Rightarrow> (Inl e, tr1)
                  | Inr esearchresult \<Rightarrow>
                      (py_get esearchresult (ascii ''idlist'') (PList []), tr1)))
          else
            (Inr (PList []),
             tr1 @ [Print [PStr (ascii ''Error fetching data from PubMed:''),
                           PInt (status_code response)]]))"

section \<open>Detail Fetcher: \<open>fetch_paper_details\<close>\<close>

definition efetch_url :: pystr where
  "efetch_url = ascii ''https://eutils.ncbi.nlm.nih.gov/entrez/eutils/efetch.fcgi''"

definition efetch_params :: "pystr \<Rightarrow> pyval" where
  "efetch_params ids =
     PDict [(ascii ''db'', PStr (ascii ''pubmed'')),
            (ascii ''id'', PStr ids),
            (ascii ''retmode'', PStr (ascii ''xml''))]"

definition fetch_paper_details :: "env \<Rightarrow> pyval \<Rightarrow> trace \<Rightarrow> (py_error + pyval) \<times> trace" where
  "fetch_paper_details ev paper_ids tr =
     (if \<not> py_truthy paper_ids then
        (Inr PNone, tr @ [Print [PStr (ascii ''No paper IDs found.'')]])
      else
        case py_join (ascii '','') paper_ids of
          Inl e \<Rightarrow> (Inl e, tr)
        | Inr ids \<Rightarrow>
            (let tr1 = tr @ [Http_get efetch_url (efetch_params ids)] in
             case requests_get ev efetch_url (efetch_params ids) of
               Inl e \<Rightarrow> (Inl e, tr1)
             | Inr response \<Rightarrow>
                 if status_code response = 200 then
                   (Inr (PStr (resp_text response)), tr1)
                 else
                   (Inr PNone,
                    tr1 @ [Print [PStr (ascii ''Error fetching details from PubMed:''),
                                  PInt (status_code response)]])))"

section \<open>Extractor: \<open>parse_pubmed_xml\<close>\<close>

subsection \<open>The body of the loop over the articles\<close>

text \<open>The lookups of \<open>medline_citation\<close> and \<open>article_info\<close>.\<close>

definition article_info_of :: "pyval \<Rightarrow> py_error + pyval" where
  "article_info_of article =
     (case py_get article (ascii ''MedlineCitation'') (PDict []) of
        Inl e \<Rightarrow> Inl e
      | Inr medline_citation \<Rightarrow> py_get medline_citation (ascii ''Article'') (PDict []))"

text \<open>Extract Title.\<close>

definition article_title :: "pyval \<Rightarrow> py_error + pyval" where
  "article_title article_info =
     py_get article_info (ascii ''ArticleTitle'') (PStr (ascii ''No Title Found''))"

text \<open>Extract Authors: the lookup of \<open>author_list\<close>, then the loop that builds the names.\<close>

definition article_author_list :: "pyval \<Rightarrow> py_error + pyval" where
  "article_author_list article_info =
     (case py_get article_info (ascii ''AuthorList'') (PDict []) of
        Inl e \<Rightarrow> Inl e
      | Inr al \<Rightarrow> py_get al (ascii ''Author'') (PList []))"

definition full_name_of :: "(pyval \<Rightarrow> pystr) \<Rightarrow> pyval \<Rightarrow> py_error + pystr" where
  "full_name_of repr author =
     (case py_get author (ascii ''LastName'') (PStr []) of
        Inl e \<Rightarrow> Inl e
      | Inr last_name \<Rightarrow>
          (case py_get author (ascii ''ForeName'') (PStr []) of
             Inl e \<Rightarrow> Inl e
           | Inr fore_name \<Rightarrow>
               Inr (py_strip (py_format repr fore_name @ ascii '' '' @ py_format repr last_name))))"

fun authors_loop :: "(pyval \<Rightarrow> pystr) \<Rightarrow> pyval list \<Rightarrow> pystr list \<Rightarrow> py_error + pystr list" where
  "authors_loop repr [] authors = Inr authors"
| "authors_loop repr (author # rest) authors =
     (case full_name_of repr author of
        Inl e \<Rightarrow> Inl e
      | Inr full_name \<Rightarrow>
          authors_loop repr rest (if full_name \<noteq> [] then authors @ [full_name] else authors))"

definition authors_of :: "(pyval \<Rightarrow> pystr) \<Rightarrow> pyval \<Rightarrow> py_error + pystr list" where
  "authors_of repr author_list =
     (case author_list of
        PList as \<Rightarrow> authors_loop repr as []
      | _ \<Rightarrow> Inr [])"

text \<open>Extract Affiliations: the inner loop over one \<open>affiliation_info\<close>, the loop over the authors.\<close>

fun affiliation_loop :: "pyval list \<Rightarrow> pyval list \<Rightarrow> py_error + pyval list" where
  "affiliation_loop [] affiliations = Inr affiliations"
| "affiliation_loop (aff # rest) affiliations =
     (case py_contains (ascii ''Affiliation'') aff of
        Inl e \<Rightarrow> Inl e
      | Inr True \<Rightarrow>
          (case py_getitem aff (ascii ''Affiliation'') of
             Inl e \<Rightarrow> Inl e
           | Inr a \<Rightarrow> affiliation_loop rest (affiliations @ [a]))
      | Inr False \<Rightarrow> affiliation_loop rest affiliations)"

fun affiliations_loop :: "pyval list \<Rightarrow> pyval list \<Rightarrow> py_error + pyval list" where
  "affiliations_loop [] affiliations = Inr affiliations"
| "affiliations_loop (author # rest) affiliations =
     (case py_get author (ascii ''AffiliationInfo'') (PList []) of
        Inl e \<Rightarrow> Inl e
      | Inr affiliation_info \<Rightarrow>
          (case affiliation_info of
             PList affs \<Rightarrow>
               (case affiliation_loop affs affiliations of
                  Inl e \<Rightarrow> Inl e
                | Inr affiliations' \<Rightarrow> affiliations_loop rest affiliations')
           | _ \<Rightarrow> affiliations_loop rest affiliations))"

definition affiliations_of :: "pyval \<Rightarrow> py_error + pyval list" where
  "affiliations_of author_list =
     (case author_list of
        PList as \<Rightarrow> (if as \<noteq> [] then affiliations_loop as [] else Inr [])
      | _ \<Rightarrow> Inr [])"

text \<open>One pass of the loop body: the dict appended to \<open>extracted_data\<close> for one article.\<close>

definition make_record :: "pyval \<Rightarrow> pystr list \<Rightarrow> pyval list \<Rightarrow> pyval" where
  "make_record title authors affiliations =
     PDict [(ascii ''title'', title),
            (ascii ''authors'', PList (map PStr authors)),
            (ascii ''affiliations'', PList affiliations)]"

definition article_record :: "(pyval \<Rightarrow> pystr) \<Rightarrow> pyval \<Rightarrow> py_error + pyval" where
  "article_record repr article =
     (case article_info_of article of
        Inl e \<Rightarrow> Inl e
      | Inr article_info \<Rightarrow>
     (case article_title article_info of
        Inl e \<Rightarrow> Inl e
      | Inr title \<Rightarrow>
     (case article_author_list article_info of
        Inl e \<Rightarrow> Inl e
      | Inr author_list \<Rightarrow>
     (case authors_of repr author_list of
        Inl e \<Rightarrow> Inl e
      | Inr authors \<Rightarrow>
     (case affiliations_of author_list of
        Inl e \<Rightarrow> Inl e
      | Inr affiliations \<Rightarrow> Inr (make_record title authors affiliations))))))"

subsection \<open>The loop and the function\<close>

fun articles_loop :: "(pyval \<Rightarrow> pystr) \<Rightarrow> pyval list \<Rightarrow> pyval list \<Rightarrow> py_error + pyval list" where
  "articles_loop repr [] extracted_data = Inr extracted_data"
| "articles_loop repr (article # rest) extracted_data =
     (case article_record repr article of
        Inl e \<Rightarrow> Inl e
      | Inr r \<Rightarrow> articles_loop repr rest (extracted_data @ [r]))"

definition debug_notice :: "pyval \<Rightarrow> event" where
  "debug_notice parsed_data =
     Print [PStr (10 # ascii ''DEBUG: Parsed XML to Dictionary Format:'' @ [10]), parsed_data]"

definition parse_pubmed_xml :: "env \<Rightarrow> pyval \<Rightarrow> trace \<Rightarrow> (py_error + pyval list) \<times> trace" where
  "parse_pubmed_xml ev xml_data tr =
     (case xmltodict_parse ev xml_data of
        Inl e \<Rightarrow> (Inl e, tr)
      | Inr parsed_data \<Rightarrow>
          (let tr1 = tr @ [debug_notice parsed_data] in
           case py_get parsed_data (ascii ''PubmedArticleSet'') (PDict []) of
             Inl e \<Rightarrow> (Inl e, tr1)
           | Inr article_set \<Rightarrow>
               (case py_get article_set (ascii ''PubmedArticle'') (PList []) of
                  Inl e \<Rightarrow> (Inl e, tr1)
                | Inr articles \<Rightarrow>
                    (case py_iter articles of
                       Inl e \<Rightarrow> (Inl e, tr1)
                     | Inr items \<Rightarrow> (articles_loop (py_repr ev) items [], tr1)))))"

section \<open>Persistence and the pipeline\<close>

definition save_to_json :: "env \<Rightarrow> pyval \<Rightarrow> pystr \<Rightarrow> trace \<Rightarrow> (py_error + unit) \<times> trace" where
  "save_to_json ev data filename tr =
     (case open_w ev filename of
        Some e \<Rightarrow> (Inl e, tr)
      | None \<Rightarrow>
          (Inr (),
           tr @ [Json_dump filename data,
                 Print [PStr ([10, 9989] @ ascii '' Data saved successfully to '' @ filename)]]))"

text \<open>\<open>', '.join(paper[key]) if paper[key] else dflt\<close>\<close>

definition joined_or :: "pyval \<Rightarrow> pystr \<Rightarrow> pystr \<Rightarrow> py_error + pystr" where
  "joined_or paper key dflt =
     (case py_getitem paper key of
        Inl e \<Rightarrow> Inl e
      | Inr c \<Rightarrow>
          if py_truthy c then
            (case py_getitem paper key of
               Inl e \<Rightarrow> Inl e
             | Inr v \<Rightarrow> py_join (ascii '', '') v)
          else Inr dflt)"

text \<open>The four lines printed for one paper, and the loop over \<open>enumerate(parsed_data, 1)\<close>.\<close>

definition print_paper :: "(pyval \<Rightarrow> pystr) \<Rightarrow> int \<Rightarrow> pyval \<Rightarrow> trace \<Rightarrow> (py_error + unit) \<times> trace" where
  "print_paper repr index paper tr =
     (let tr1 = tr @ [Print [PStr ([10, 128313] @ ascii '' Paper '' @ py_str_int index @ ascii '':'')]] in
      case py_getitem paper (ascii ''title'') of
        Inl e \<Rightarrow> (Inl e, tr1)
      | Inr title \<Rightarrow>
          (let tr2 = tr1 @ [Print [PStr ([128204] @ ascii '' Title: '' @ py_format repr title)]] in
           case joined_or paper (ascii ''authors'') (ascii ''No Authors Found'') of
             Inl e \<Rightarrow> (Inl e, tr2)
           | Inr authors \<Rightarrow>
               (let tr3 = tr2 @ [Print [PStr ([128221] @ ascii '' Authors: '' @ authors)]] in
                case joined_or paper (ascii ''affiliations'') (ascii ''No Affiliations Found'') of
                  Inl e \<Rightarrow> (Inl e, tr3)
                | Inr affiliations \<Rightarrow>
                    (Inr (),
                     tr3 @ [Print [PStr ([127963, 65039] @ ascii '' Affiliations: '' @ affiliations)]]))))"

fun print_papers :: "(pyval \<Rightarrow> pystr) \<Rightarrow> int \<Rightarrow> pyval list \<Rightarrow> trace \<Rightarrow> (py_error + unit) \<times> trace" where
  "print_papers repr index [] tr = (Inr (), tr)"
| "print_papers repr index (paper # rest) tr =
     (case print_paper repr index paper tr of
        (Inl e, tr1) \<Rightarrow> (Inl e, tr1)
      | (Inr u, tr1) \<Rightarrow> print_papers repr (index + 1) rest tr1)"

text \<open>The \<open>__main__\<close> block, from the parsed argument \<open>args.query\<close> on.\<close>

definition main :: "env \<Rightarrow> pystr \<Rightarrow> trace \<Rightarrow> (py_error + unit) \<times> trace" where
  "main ev query tr =
     (let tr1 = tr @ [Print [PStr ([10, 128269] @ ascii '' Searching PubMed for: '' @ query)]] in
      case fetch_pubmed_papers ev (PStr query) tr1 of
        (Inl e, tr2) \<Rightarrow> (Inl e, tr2)
      | (Inr paper_ids, tr2) \<Rightarrow>
          (let tr3 = tr2 @ [Print [PStr (ascii ''Fetched Paper IDs:''), paper_ids]] in
           if py_truthy paper_ids then
             (case fetch_paper_details ev paper_ids tr3 of
                (Inl e, tr4) \<Rightarrow> (Inl e, tr4)
              | (Inr details, tr4) \<Rightarrow>
                  (let tr5 = tr4 @ [Print [PStr (10 # ascii ''Extracting Paper Details...'')]] in
                   case parse_pubmed_xml ev details tr5 of
                     (Inl e, tr6) \<Rightarrow> (Inl e, tr6)
                   | (Inr parsed_data, tr6) \<Rightarrow>
                       (case print_papers (py_repr ev) 1 parsed_data tr6 of
                          (Inl e, tr7) \<Rightarrow> (Inl e, tr7)
                        | (Inr u, tr7) \<Rightarrow>
                            save_to_json ev (PList parsed_data) (ascii ''pubmed_results.json'') tr7)))
           else (Inr (), tr3)))"

section \<open>Notions of the specification\<close>



text \<open>
  Following a path of child names from a node: the node reached, if every name of the path
  is the key of a child. The path citation, article-info, title is absent in an article
  node when it reaches nothing.
\<close>

fun lookup_path :: "pyval \<Rightarrow> pystr list \<Rightarrow> pyval option" where
  "lookup_path v [] = Some v"
| "lookup_path (PDict kvs) (k # ks) =
     (case map_of kvs k of None \<Rightarrow> None | Some v \<Rightarrow> lookup_path v ks)"
| "lookup_path v (k # ks) = None"

definition title_absent :: "pyval \<Rightarrow> bool" where
  "title_absent article =
     (lookup_path article [ascii ''MedlineCitation'', ascii ''Article'', ascii ''ArticleTitle'']
        = None)"

text \<open>
  The display name of an author node is "given-name family-name", trimmed. The given name
  and the family name are the strs under their keys; a name that is missing, or whose
  element is empty, is the empty name.
\<close>

definition name_part :: "pyval \<Rightarrow> pystr \<Rightarrow> pystr" where
  "name_part author k =
     (case author of
        PDict kvs \<Rightarrow> (case map_of kvs k of Some (PStr s) \<Rightarrow> s | _ \<Rightarrow> [])
      | _ \<Rightarrow> [])"

definition display_name :: "pyval \<Rightarrow> pystr" where
  "display_name author =
     py_strip (name_part author (ascii ''ForeName'') @ ascii '' ''
               @ name_part author (ascii ''LastName''))"




text \<open>
  A search response body that lacks the result keys, and one that holds an empty result.
\<close>

definition lacks_result_keys :: "pyval \<Rightarrow> bool" where
  "lacks_result_keys data =
     (case data of
        PDict body \<Rightarrow>
          (case map_of body (ascii ''esearchresult'') of
             None \<Rightarrow> True
           | Some (PDict er) \<Rightarrow> map_of er (ascii ''idlist'') = None
           | Some _ \<Rightarrow> False)
      | _ \<Rightarrow> False)"

definition empty_result :: "pyval \<Rightarrow> bool" where
  "empty_result data =
     (case data of
        PDict body \<Rightarrow>
          (case map_of body (ascii ''esearchresult'') of
             Some (PDict er) \<Rightarrow> map_of er (ascii ''idlist'') = Some (PList [])
           | _ \<Rightarrow> False)
      | _ \<Rightarrow> False)"

text \<open>The requests to the fetch endpoint in a trace.\<close>

definition is_detail_fetch :: "event \<Rightarrow> bool" where
  "is_detail_fetch e = (case e of Http_get url params \<Rightarrow> url = efetch_url | _ \<Rightarrow> False)"

definition detail_fetch_calls :: "trace \<Rightarrow> nat" where
  "detail_fetch_calls tr = length (filter is_detail_fetch tr)"

section \<open>Shapes of input on which the lookups return\<close>

text \<open>
  The \<open>.get\<close> lookups of the code return on dicts only, and the f-string gives a str back
  unchanged only for a str. Two shapes of input on which every lookup of the title, and
  every name of an author, is of that kind. They are narrower than the notions above: an
  empty element, which the parser delivers as \<open>None\<close>, is outside both.
\<close>

definition title_key_missing :: "pyval \<Rightarrow> bool" where
  "title_key_missing article =
     (case article of
        PDict a \<Rightarrow>
          (case map_of a (ascii ''MedlineCitation'') of
             None \<Rightarrow> True
           | Some (PDict c) \<Rightarrow>
               (case map_of c (ascii ''Article'') of
                  None \<Rightarrow> True
                | Some (PDict i) \<Rightarrow> map_of i (ascii ''ArticleTitle'') = None
                | Some _ \<Rightarrow> False)
           | Some _ \<Rightarrow> False)
      | _ \<Rightarrow> False)"

definition str_or_missing :: "pyval option \<Rightarrow> bool" where
  "str_or_missing x = (case x of None \<Rightarrow> True | Some (PStr s) \<Rightarrow> True | Some _ \<Rightarrow> False)"

definition str_named_author :: "pyval \<Rightarrow> bool" where
  "str_named_author author =
     (case author of
        PDict kvs \<Rightarrow>
          str_or_missing (map_of kvs (ascii ''ForeName''))
          \<and> str_or_missing (map_of kvs (ascii ''LastName''))
      | _ \<Rightarrow> False)"

section \<open>Example inputs\<close>

text \<open>
  An environment that answers every request with one response and parses every document
  to one tree.
\<close>

definition ex_repr :: "pyval \<Rightarrow> pystr" where
  "ex_repr v = []"

definition ex_env :: "response \<Rightarrow> pyval \<Rightarrow> env" where
  "ex_env resp tree =
     \<lparr>requests_get = (\<lambda>url params. Inr resp),
      xmltodict_parse = (\<lambda>xml. Inr tree),
      py_repr = ex_repr,
      open_w = (\<lambda>filename. None)\<rparr>"

definition ex_response :: "int \<Rightarrow> pyval \<Rightarrow> response" where
  "ex_response status data = \<lparr>status_code = status, resp_text = [], resp_json = Inr data\<rparr>"

text \<open>
  Three authors: one with two affiliation-info entries, one whose names are empty strs, one whose
  affiliation-info is a single node.
\<close>

definition ex_author1 :: pyval where
  "ex_author1 =
     PDict [(ascii ''LastName'', PStr (ascii ''Doe'')),
            (ascii ''ForeName'', PStr (ascii ''Jane'')),
            (ascii ''AffiliationInfo'',
               PList [PDict [(ascii ''Affiliation'', PStr (ascii ''Lab X''))],
                      PDict [(ascii ''Affiliation'', PStr (ascii ''Lab Y''))]])]"

definition ex_author2 :: pyval where
  "ex_author2 = PDict [(ascii ''LastName'', PStr []), (ascii ''ForeName'', PStr [])]"

definition ex_author3 :: pyval where
  "ex_author3 =
     PDict [(ascii ''LastName'', PStr (ascii ''Lee '')),
            (ascii ''ForeName'', PStr (ascii '' Ann'')),
            (ascii ''AffiliationInfo'', PDict [(ascii ''Affiliation'', PStr (ascii ''Lab Z''))])]"

text \<open>An article with a title and a list of authors; an article with no title and one author.\<close>

definition ex_article1 :: pyval where
  "ex_article1 =
     PDict [(ascii ''MedlineCitation'',
       PDict [(ascii ''Article'',
         PDict [(ascii ''ArticleTitle'', PStr (ascii ''Study A'')),
                (ascii ''AuthorList'',
                   PDict [(ascii ''Author'', PList [ex_author1, ex_author2, ex_author3])])])])]"

definition ex_info2 :: pyval where
  "ex_info2 = PDict [(ascii ''AuthorList'', PDict [(ascii ''Author'', ex_author1)])]"

definition ex_article2 :: pyval where
  "ex_article2 = PDict [(ascii ''MedlineCitation'', PDict [(ascii ''Article'', ex_info2)])]"

text \<open>An article with no title and a list of authors.\<close>

definition ex_article3 :: pyval where
  "ex_article3 =
     PDict [(ascii ''MedlineCitation'',
       PDict [(ascii ''Article'',
         PDict [(ascii ''AuthorList'',
                   PDict [(ascii ''Author'', PList [ex_author1, ex_author2, ex_author3])])])])]"

text \<open>
  An author whose name elements are both empty, an article that lists it, and an article
  whose article-info node is an empty element: the parser delivers an empty element as
  \<open>None\<close>.
\<close>

definition ex_author_none :: pyval where
  "ex_author_none = PDict [(ascii ''LastName'', PNone), (ascii ''ForeName'', PNone)]"

definition ex_article_none_names :: pyval where
  "ex_article_none_names =
     PDict [(ascii ''MedlineCitation'',
       PDict [(ascii ''Article'',
         PDict [(ascii ''ArticleTitle'', PStr (ascii ''Study B'')),
                (ascii ''AuthorList'',
                   PDict [(ascii ''Author'', PList [ex_author1, ex_author_none])])])])]"

definition ex_article_empty :: pyval where
  "ex_article_empty = PDict [(ascii ''MedlineCitation'', PDict [(ascii ''Article'', PNone)])]"

definition ex_none_names_doc :: pyval where
  "ex_none_names_doc =
     PDict [(ascii ''PubmedArticleSet'',
       PDict [(ascii ''PubmedArticle'', PList [ex_article_none_names, ex_article2])])]"

definition ex_empty_node_doc :: pyval where
  "ex_empty_node_doc =
     PDict [(ascii ''PubmedArticleSet'',
       PDict [(ascii ''PubmedArticle'', PList [ex_article1, ex_article_empty])])]"

definition ex_record_none_names :: pyval where
  "ex_record_none_names =
     PDict [(ascii ''title'', PStr (ascii ''Study B'')),
            (ascii ''authors'', PList [PStr (ascii ''Jane Doe''), PStr (ascii ''None None'')]),
            (ascii ''affiliations'', PList [PStr (ascii ''Lab X''), PStr (ascii ''Lab Y'')])]"

text \<open>A document with two articles, and a document with one.\<close>

definition ex_doc :: pyval where
  "ex_doc =
     PDict [(ascii ''PubmedArticleSet'',
       PDict [(ascii ''PubmedArticle'', PList [ex_article1, ex_article2])])]"

definition ex_single_doc :: pyval where
  "ex_single_doc =
     PDict [(ascii ''PubmedArticleSet'', PDict [(ascii ''PubmedArticle'', ex_article1)])]"

definition ex_record1 :: pyval where
  "ex_record1 =
     PDict [(ascii ''title'', PStr (ascii ''Study A'')),
            (ascii ''authors'', PList [PStr (ascii ''Jane Doe''), PStr (ascii ''Ann Lee'')]),
            (ascii ''affiliations'', PList [PStr (ascii ''Lab X''), PStr (ascii ''Lab Y'')])]"

definition ex_record3 :: pyval where
  "ex_record3 =
     PDict [(ascii ''title'', PStr (ascii ''No Title Found'')),
            (ascii ''authors'', PList [PStr (ascii ''Jane Doe''), PStr (ascii ''Ann Lee'')]),
            (ascii ''affiliations'', PList [PStr (ascii ''Lab X''), PStr (ascii ''Lab Y'')])]"

text \<open>Search response bodies: an empty result, and a body without the result keys.\<close>

definition ex_empty_body :: pyval where
  "ex_empty_body = PDict [(ascii ''esearchresult'', PDict [(ascii ''idlist'', PList [])])]"

definition ex_keyless_body :: pyval where
  "ex_keyless_body = PDict [(ascii ''esearchresult'', PDict [(ascii ''ERROR'', PStr (ascii ''Empty term''))])]"

definition ex_query :: pystr where
  "ex_query = ascii ''cancer genomics''"

definition ex_record2 :: pyval where
  "ex_record2 =
     PDict [(ascii ''title'', PStr (ascii ''No Title Found'')),
            (ascii ''authors'', PList []),
            (ascii ''affiliations'', PList [])]"

section \<open>Facts about the helpers\<close>

lemma ascii_eq_iff [simp]: "ascii s = ascii t \<longleftrightarrow> s = t"
  by (simp add: ascii_def inj_map_eq_map [OF inj_of_char])

lemma ascii_eq_Nil_iff [simp]: "ascii s = [] \<longleftrightarrow> s = []"
  by (simp add: ascii_def)

lemma urls_differ: "esearch_url \<noteq> efetch_url"
  by (simp add: esearch_url_def efetch_url_def)

lemma py_strip_blank: "py_strip (ascii '' '') = []"
  by (simp add: py_strip_def py_isspace_def ascii_def)

text \<open>
  \<open>py_strip\<close> removes a run of whitespace at each end and nothing else, and what is left
  neither starts nor ends with whitespace.
\<close>

lemma py_strip_decomp:
  "\<exists>l r. s = l @ py_strip s @ r \<and> list_all py_isspace l \<and> list_all py_isspace r"
proof -
  let ?t = "dropWhile py_isspace s"
  let ?u = "dropWhile py_isspace (rev ?t)"
  have 1: "s = takeWhile py_isspace s @ ?t" by simp
  have "rev (takeWhile py_isspace (rev ?t) @ ?u) = rev (rev ?t)"
    by (simp only: takeWhile_dropWhile_id)
  then have 2: "rev ?u @ rev (takeWhile py_isspace (rev ?t)) = ?t"
    by (simp only: rev_append rev_rev_ident)
  have 3: "list_all py_isspace (takeWhile py_isspace s)"
    by (simp add: list_all_iff) (meson set_takeWhileD)
  have 4: "list_all py_isspace (rev (takeWhile py_isspace (rev ?t)))"
    by (simp add: list_all_iff) (meson set_takeWhileD)
  have "s = takeWhile py_isspace s @ py_strip s @ rev (takeWhile py_isspace (rev ?t))"
    using 1 2 by (simp only: py_strip_def)
  with 3 4 show ?thesis by blast
qed

lemma last_dropWhile_eq: "dropWhile P xs \<noteq> [] \<Longrightarrow> last (dropWhile P xs) = last xs"
  by (metis last_appendR takeWhile_dropWhile_id)

lemma py_strip_trimmed:
  assumes "py_strip s \<noteq> []"
  shows "\<not> py_isspace (hd (py_strip s)) \<and> \<not> py_isspace (last (py_strip s))"
proof -
  let ?t = "dropWhile py_isspace s"
  let ?u = "dropWhile py_isspace (rev ?t)"
  from assms have u: "?u \<noteq> []" by (simp add: py_strip_def)
  then have t: "?t \<noteq> []" by (cases "dropWhile py_isspace s") simp_all
  have "last (py_strip s) = hd ?u" using u by (simp add: py_strip_def last_rev)
  moreover have "\<not> py_isspace (hd ?u)" using u by (rule hd_dropWhile)
  moreover have "hd (py_strip s) = last ?u" using u by (simp add: py_strip_def hd_rev)
  moreover have "last ?u = last (rev ?t)" using u by (rule last_dropWhile_eq)
  moreover have "last (rev ?t) = hd ?t" using t by (simp add: last_rev)
  moreover have "\<not> py_isspace (hd ?t)" using t by (rule hd_dropWhile)
  ultimately show ?thesis by simp
qed

subsection \<open>Search\<close>

lemma fetch_pubmed_papers_trace:
  "\<exists>out. snd (fetch_pubmed_papers ev q tr) = tr @ out \<and> detail_fetch_calls out = 0"
  by (auto simp: fetch_pubmed_papers_def Let_def detail_fetch_calls_def is_detail_fetch_def
      urls_differ split: sum.splits)

lemma fetch_pubmed_papers_result:
  "fst (fetch_pubmed_papers ev q tr) = fst (fetch_pubmed_papers ev q tr')"
  by (auto simp: fetch_pubmed_papers_def Let_def split: sum.splits)

text \<open>
  When the search returns the empty list, the pipeline prints the identifiers and stops:
  \<open>fetch_paper_details\<close> is not called.
\<close>

lemma main_empty_search:
  assumes "fetch_pubmed_papers ev (PStr query)
             (tr @ [Print [PStr ([10, 128269] @ ascii '' Searching PubMed for: '' @ query)]]) =
           (Inr (PList []), tr2)"
  shows "main ev query tr =
           (Inr (), tr2 @ [Print [PStr (ascii ''Fetched Paper IDs:''), PList []]])"
  unfolding main_def Let_def assms by (simp add: py_truthy_def)

subsection \<open>The loops of the Extractor\<close>

lemma full_name_of_entry:
  "str_named_author a \<Longrightarrow> full_name_of repr a = Inr (display_name a)"
  by (auto simp: str_named_author_def full_name_of_def display_name_def name_part_def py_get_def
      py_format_def str_or_missing_def split: pyval.splits option.splits)

lemma authors_loop_acc:
  "list_all str_named_author as \<Longrightarrow>
   authors_loop repr as acc = Inr (acc @ filter (\<lambda>n. n \<noteq> []) (map display_name as))"
  by (induction as arbitrary: acc) (simp_all add: full_name_of_entry)

lemma authors_loop_nonempty:
  "authors_loop repr as acc = Inr r \<Longrightarrow> [] \<notin> set acc \<Longrightarrow> [] \<notin> set r"
proof (induction as arbitrary: acc)
  case Nil
  then show ?case by simp
next
  case (Cons a as)
  then show ?case by (auto split: sum.splits if_splits)
qed

lemma authors_of_nonempty: "authors_of repr author_list = Inr r \<Longrightarrow> [] \<notin> set r"
  by (cases author_list) (auto simp: authors_of_def dest: authors_loop_nonempty)



lemma title_key_missing_info:
  assumes "title_key_missing article"
  shows "\<exists>kvs. article_info_of article = Inr (PDict kvs)
           \<and> map_of kvs (ascii ''ArticleTitle'') = None"
proof -
  from assms obtain a where a: "article = PDict a"
    by (cases article) (simp_all add: title_key_missing_def)
  show ?thesis
  proof (cases "map_of a (ascii ''MedlineCitation'')")
    case None
    with a have "article_info_of article = Inr (PDict [])"
      by (simp add: article_info_of_def py_get_def)
    then show ?thesis by simp
  next
    case (Some c)
    with assms a obtain cd where c: "c = PDict cd"
      by (cases c) (simp_all add: title_key_missing_def)
    show ?thesis
    proof (cases "map_of cd (ascii ''Article'')")
      case None
      with a Some c have "article_info_of article = Inr (PDict [])"
        by (simp add: article_info_of_def py_get_def)
      then show ?thesis by simp
    next
      case (Some i)
      with assms a \<open>map_of a (ascii ''MedlineCitation'') = Some c\<close> c
      obtain kvs where i: "i = PDict kvs" and n: "map_of kvs (ascii ''ArticleTitle'') = None"
        by (cases i) (simp_all add: title_key_missing_def)
      from a \<open>map_of a (ascii ''MedlineCitation'') = Some c\<close> c Some i
      have "article_info_of article = Inr (PDict kvs)"
        by (simp add: article_info_of_def py_get_def)
      with n show ?thesis by simp
    qed
  qed
qed

lemma article_record_shape:
  assumes "article_record repr article = Inr r"
  shows "\<exists>title authors affiliations.
           r = make_record title authors affiliations \<and> [] \<notin> set authors"
  using assms
  by (auto simp: article_record_def split: sum.splits dest: authors_of_nonempty)

text \<open>
  The loop over a list of articles appends one record per article, in the order of the
  list, and fails as soon as one article fails.
\<close>

lemma articles_loop_all2:
  "articles_loop repr items acc = Inr recs \<Longrightarrow>
   \<exists>new. recs = acc @ new \<and> list_all2 (\<lambda>a r. article_record repr a = Inr r) items new"
proof (induction items arbitrary: acc)
  case Nil
  then show ?case by simp
next
  case (Cons a items)
  from Cons.prems obtain r where r: "article_record repr a = Inr r"
    and rest: "articles_loop repr items (acc @ [r]) = Inr recs"
    by (auto split: sum.splits)
  from Cons.IH [OF rest] obtain new where
    "recs = (acc @ [r]) @ new" "list_all2 (\<lambda>a r. article_record repr a = Inr r) items new"
    by blast
  with r have "recs = acc @ (r # new) \<and>
      list_all2 (\<lambda>a r. article_record repr a = Inr r) (a # items) (r # new)"
    by simp
  then show ?case by blast
qed

lemma articles_loop_total:
  "list_all2 (\<lambda>a r. article_record repr a = Inr r) items new \<Longrightarrow>
   articles_loop repr items acc = Inr (acc @ new)"
  by (induction items new arbitrary: acc rule: list_all2_induct) simp_all

text \<open>
  On a document whose article-set holds a list of articles, the function returns one
  record per article, in document order, when every article yields a record.
\<close>

lemma parse_pubmed_xml_list_form:
  assumes "xmltodict_parse ev xml_data = Inr (PDict root)"
    and "map_of root (ascii ''PubmedArticleSet'') = Some (PDict article_set)"
    and "map_of article_set (ascii ''PubmedArticle'') = Some (PList items)"
    and "list_all2 (\<lambda>a r. article_record (py_repr ev) a = Inr r) items records"
  shows "fst (parse_pubmed_xml ev xml_data tr) = Inr records"
  using assms by (simp add: parse_pubmed_xml_def Let_def py_get_def py_iter_def articles_loop_total)

text \<open>
  Where only a key of the title path is missing, under nodes that are dicts, the path is
  absent, the title is the placeholder, and the only failures left are those of the author
  list.
\<close>

lemma title_key_missing_absent:
  assumes "title_key_missing article"
  shows "title_absent article"
proof -
  from assms obtain a where a: "article = PDict a"
    by (cases article) (simp_all add: title_key_missing_def)
  show ?thesis
  proof (cases "map_of a (ascii ''MedlineCitation'')")
    case None
    with a show ?thesis by (simp add: title_absent_def)
  next
    case (Some c)
    with assms a obtain cd where c: "c = PDict cd"
      by (cases c) (simp_all add: title_key_missing_def)
    show ?thesis
    proof (cases "map_of cd (ascii ''Article'')")
      case None
      with a \<open>map_of a (ascii ''MedlineCitation'') = Some c\<close> c show ?thesis
        by (simp add: title_absent_def)
    next
      case (Some i)
      with assms a \<open>map_of a (ascii ''MedlineCitation'') = Some c\<close> c
      obtain kvs where i: "i = PDict kvs" and n: "map_of kvs (ascii ''ArticleTitle'') = None"
        by (cases i) (simp_all add: title_key_missing_def)
      from a \<open>map_of a (ascii ''MedlineCitation'') = Some c\<close> c Some i n show ?thesis
        by (simp add: title_absent_def)
    qed
  qed
qed

lemma title_key_missing_placeholder:
  assumes "title_key_missing article"
  shows "\<exists>info. article_info_of article = Inr info
           \<and> article_title info = Inr (PStr (ascii ''No Title Found''))
           \<and> article_record repr article =
               (case article_author_list info of
                  Inl e \<Rightarrow> Inl e
                | Inr author_list \<Rightarrow>
                    (case authors_of repr author_list of
                       Inl e \<Rightarrow> Inl e
                     | Inr authors \<Rightarrow>
                         (case affiliations_of author_list of
                            Inl e \<Rightarrow> Inl e
                          | Inr affiliations \<Rightarrow>
                              Inr (PDict [(ascii ''title'', PStr (ascii ''No Title Found'')),
                                          (ascii ''authors'', PList (map PStr authors)),
                                          (ascii ''affiliations'', PList affiliations)]))))"
proof -
  from title_key_missing_info [OF assms] obtain kvs where
    i: "article_info_of article = Inr (PDict kvs)"
    and n: "map_of kvs (ascii ''ArticleTitle'') = None"
    by blast
  have t: "article_title (PDict kvs) = Inr (PStr (ascii ''No Title Found''))"
    by (simp add: article_title_def py_get_def n)
  show ?thesis
    by (rule exI [of _ "PDict kvs"])
       (simp add: i t article_record_def make_record_def split: sum.splits)
qed

text \<open>
  Where the names of every author are strs or missing, the names collected are the
  non-empty display names, in the order of the list.
\<close>

lemma authors_of_str_names:
  assumes "list_all str_named_author as"
  shows "authors_of repr (PList as) = Inr (filter (\<lambda>n. n \<noteq> []) (map display_name as))"
  using authors_loop_acc [OF assms, of repr "[]"] by (simp add: authors_of_def)

text \<open>
  On a document whose article-set holds one article node, a dict with at least one child,
  the loop runs over the keys of the dict and fails on the first.
\<close>

lemma parse_pubmed_xml_single_node:
  assumes "xmltodict_parse ev xml_data = Inr (PDict root)"
    and "map_of root (ascii ''PubmedArticleSet'') = Some (PDict article_set)"
    and "map_of article_set (ascii ''PubmedArticle'') = Some (PDict (child # children))"
  shows "fst (parse_pubmed_xml ev xml_data tr) = Inl AttributeError"
  using assms
  by (simp add: parse_pubmed_xml_def Let_def py_get_def py_iter_def article_record_def
      article_info_of_def)

subsection \<open>Evaluation of the examples\<close>

lemma ex_author1_name: "full_name_of repr ex_author1 = Inr (ascii ''Jane Doe'')"
  by (simp add: full_name_of_def ex_author1_def py_get_def py_format_def py_strip_def
      py_isspace_def ascii_def)

lemma ex_author2_name: "full_name_of repr ex_author2 = Inr []"
  by (simp add: full_name_of_def ex_author2_def py_get_def py_format_def py_strip_def
      py_isspace_def ascii_def)

lemma ex_author3_name: "full_name_of repr ex_author3 = Inr (ascii ''Ann Lee'')"
  by (simp add: full_name_of_def ex_author3_def py_get_def py_format_def py_strip_def
      py_isspace_def ascii_def)

lemma ex_authors:
  "authors_of repr (PList [ex_author1, ex_author2, ex_author3]) =
     Inr [ascii ''Jane Doe'', ascii ''Ann Lee'']"
  by (simp add: authors_of_def ex_author1_name ex_author2_name ex_author3_name)

lemma ex_affiliations:
  "affiliations_of (PList [ex_author1, ex_author2, ex_author3]) =
     Inr [PStr (ascii ''Lab X''), PStr (ascii ''Lab Y'')]"
  by (simp add: affiliations_of_def ex_author1_def ex_author2_def ex_author3_def py_get_def
      py_contains_def py_getitem_def)

lemma ex_article1_record: "article_record repr ex_article1 = Inr ex_record1"
  by (simp add: article_record_def article_info_of_def article_title_def article_author_list_def
      ex_article1_def py_get_def ex_authors ex_affiliations make_record_def ex_record1_def)

lemma ex_article2_info: "article_info_of ex_article2 = Inr ex_info2"
  by (simp add: article_info_of_def ex_article2_def py_get_def)

lemma ex_info2_author_list: "article_author_list ex_info2 = Inr ex_author1"
  by (simp add: article_author_list_def ex_info2_def py_get_def)

lemma ex_info2_title: "article_title ex_info2 = Inr (PStr (ascii ''No Title Found''))"
  by (simp add: article_title_def ex_info2_def py_get_def)


lemma ex_article2_record: "article_record repr ex_article2 = Inr ex_record2"
  by (simp add: article_record_def ex_article2_info ex_info2_author_list ex_info2_title
      authors_of_def affiliations_of_def ex_author1_def make_record_def ex_record2_def)

lemma ex_article3_record: "article_record repr ex_article3 = Inr ex_record3"
  by (simp add: article_record_def article_info_of_def article_title_def article_author_list_def
      ex_article3_def py_get_def ex_authors ex_affiliations make_record_def ex_record3_def)

lemma ex_doc_records:
  "parse_pubmed_xml (ex_env resp ex_doc) xml_data tr =
     (Inr [ex_record1, ex_record2], tr @ [debug_notice ex_doc])"
  by (simp add: parse_pubmed_xml_def ex_env_def Let_def ex_doc_def py_get_def py_iter_def
      ex_article1_record ex_article2_record)


section \<open>Properties of Search\<close>

text \<open>
  C7. A response of the search request whose status is not 200 makes
  \<open>fetch_pubmed_papers\<close> return the empty list, without raising, after one request and one
  printed notice that carries the status.
\<close>

theorem fetch_pubmed_papers_error_status:
  assumes "requests_get ev esearch_url (esearch_params query) = Inr response"
    and "status_code response \<noteq> 200"
  shows "fetch_pubmed_papers ev query tr =
           (Inr (PList []),
            tr @ [Http_get esearch_url (esearch_params query),
                  Print [PStr (ascii ''Error fetching data from PubMed:''),
                         PInt (status_code response)]])"
  using assms by (simp add: fetch_pubmed_papers_def)

theorem fetch_pubmed_papers_error_status_witness:
  "status_code (ex_response 500 PNone) \<noteq> 200
   \<and> fetch_pubmed_papers (ex_env (ex_response 500 PNone) PNone) (PStr ex_query) [] =
       (Inr (PList []),
        [Http_get esearch_url (esearch_params (PStr ex_query)),
         Print [PStr (ascii ''Error fetching data from PubMed:''), PInt 500]])"
proof -
  have g: "requests_get (ex_env (ex_response 500 PNone) PNone) esearch_url
             (esearch_params (PStr ex_query)) = Inr (ex_response 500 PNone)"
    by (simp add: ex_env_def)
  have st: "status_code (ex_response 500 PNone) \<noteq> 200"
    by (simp add: ex_response_def)
  show ?thesis
    using st fetch_pubmed_papers_error_status [OF g st, of "[]"]
    by (simp add: ex_response_def)
qed

text \<open>
  C10. When the status is 200 and the body is a JSON object that has no key
  "esearchresult", or whose "esearchresult" object has no key "idlist",
  \<open>fetch_pubmed_papers\<close> returns the empty list and prints nothing: value and trace are
  those of a response whose "idlist" is the empty list.
\<close>

theorem fetch_pubmed_papers_missing_keys:
  assumes "requests_get ev esearch_url (esearch_params query) = Inr response"
    and "status_code response = 200"
    and "resp_json response = Inr data"
    and "lacks_result_keys data"
    and "requests_get ev' esearch_url (esearch_params query) = Inr response'"
    and "status_code response' = 200"
    and "resp_json response' = Inr data'"
    and "empty_result data'"
  shows "fetch_pubmed_papers ev query tr =
           (Inr (PList []), tr @ [Http_get esearch_url (esearch_params query)])
         \<and> fetch_pubmed_papers ev' query tr = fetch_pubmed_papers ev query tr"
proof -
  have a: "fetch_pubmed_papers ev query tr =
             (Inr (PList []), tr @ [Http_get esearch_url (esearch_params query)])"
    using assms(1-4)
    by (auto simp: fetch_pubmed_papers_def lacks_result_keys_def py_get_def
        split: pyval.splits option.splits)
  have b: "fetch_pubmed_papers ev' query tr =
             (Inr (PList []), tr @ [Http_get esearch_url (esearch_params query)])"
    using assms(5-8)
    by (auto simp: fetch_pubmed_papers_def empty_result_def py_get_def
        split: pyval.splits option.splits)
  from a b show ?thesis by simp
qed

theorem fetch_pubmed_papers_missing_keys_witness:
  "lacks_result_keys ex_keyless_body \<and> lacks_result_keys (PDict []) \<and> empty_result ex_empty_body
   \<and> fetch_pubmed_papers (ex_env (ex_response 200 ex_keyless_body) PNone) (PStr ex_query) [] =
       (Inr (PList []), [Http_get esearch_url (esearch_params (PStr ex_query))])
   \<and> fetch_pubmed_papers (ex_env (ex_response 200 ex_empty_body) PNone) (PStr ex_query) [] =
       fetch_pubmed_papers (ex_env (ex_response 200 ex_keyless_body) PNone) (PStr ex_query) []"
proof -
  have g: "requests_get (ex_env (ex_response 200 ex_keyless_body) PNone) esearch_url
             (esearch_params (PStr ex_query)) = Inr (ex_response 200 ex_keyless_body)"
    by (simp add: ex_env_def)
  have g': "requests_get (ex_env (ex_response 200 ex_empty_body) PNone) esearch_url
             (esearch_params (PStr ex_query)) = Inr (ex_response 200 ex_empty_body)"
    by (simp add: ex_env_def)
  have st: "status_code (ex_response 200 ex_keyless_body) = 200"
    "status_code (ex_response 200 ex_empty_body) = 200"
    by (simp_all add: ex_response_def)
  have js: "resp_json (ex_response 200 ex_keyless_body) = Inr ex_keyless_body"
    "resp_json (ex_response 200 ex_empty_body) = Inr ex_empty_body"
    by (simp_all add: ex_response_def)
  have l: "lacks_result_keys ex_keyless_body"
    by (simp add: lacks_result_keys_def ex_keyless_body_def)
  have l0: "lacks_result_keys (PDict [])"
    by (simp add: lacks_result_keys_def)
  have e: "empty_result ex_empty_body"
    by (simp add: empty_result_def ex_empty_body_def)
  show ?thesis
    using l l0 e
      fetch_pubmed_papers_missing_keys [OF g st(1) js(1) l g' st(2) js(2) e, of "[]"]
    by simp
qed

section \<open>Properties of the Detail Fetcher and of the pipeline\<close>

text \<open>
  C6. On the empty list of identifiers \<open>fetch_paper_details\<close> returns \<open>None\<close> and the only
  effect is the notice "No paper IDs found.": no request is issued. When the search returns
  the empty list, the pipeline ends normally and its trace holds no request to the fetch
  endpoint beyond those already there.
\<close>

theorem empty_ids_no_detail_fetch:
  "fetch_paper_details ev (PList []) tr =
     (Inr PNone, tr @ [Print [PStr (ascii ''No paper IDs found.'')]])
   \<and> (fst (fetch_pubmed_papers ev (PStr query) tr0) = Inr (PList []) \<longrightarrow>
        fst (main ev query tr) = Inr ()
        \<and> detail_fetch_calls (snd (main ev query tr)) = detail_fetch_calls tr)"
proof (intro conjI impI)
  show "fetch_paper_details ev (PList []) tr =
     (Inr PNone, tr @ [Print [PStr (ascii ''No paper IDs found.'')]])"
    by (simp add: fetch_paper_details_def py_truthy_def)
next
  assume a: "fst (fetch_pubmed_papers ev (PStr query) tr0) = Inr (PList [])"
  let ?tr1 = "tr @ [Print [PStr ([10, 128269] @ ascii '' Searching PubMed for: '' @ query)]]"
  obtain out where out: "snd (fetch_pubmed_papers ev (PStr query) ?tr1) = ?tr1 @ out"
    "detail_fetch_calls out = 0"
    using fetch_pubmed_papers_trace by blast
  have r: "fst (fetch_pubmed_papers ev (PStr query) ?tr1) = Inr (PList [])"
    using a fetch_pubmed_papers_result by metis
  have eq: "fetch_pubmed_papers ev (PStr query) ?tr1 = (Inr (PList []), ?tr1 @ out)"
    using r out(1) by (metis prod.collapse)
  have m: "main ev query tr =
             (Inr (), (?tr1 @ out) @ [Print [PStr (ascii ''Fetched Paper IDs:''), PList []]])"
    by (rule main_empty_search [OF eq])
  show "fst (main ev query tr) = Inr ()"
    by (simp add: m)
  show "detail_fetch_calls (snd (main ev query tr)) = detail_fetch_calls tr"
    using out(2) by (simp add: m detail_fetch_calls_def is_detail_fetch_def)
qed

theorem empty_ids_no_detail_fetch_witness:
  "fst (fetch_pubmed_papers (ex_env (ex_response 200 ex_empty_body) PNone) (PStr ex_query) []) =
     Inr (PList [])
   \<and> fst (main (ex_env (ex_response 200 ex_empty_body) PNone) ex_query []) = Inr ()
   \<and> detail_fetch_calls (snd (main (ex_env (ex_response 200 ex_empty_body) PNone) ex_query [])) = 0"
proof -
  have h: "fst (fetch_pubmed_papers (ex_env (ex_response 200 ex_empty_body) PNone)
             (PStr ex_query) []) = Inr (PList [])"
    by (simp add: fetch_pubmed_papers_def ex_env_def ex_response_def ex_empty_body_def
        py_get_def)
  show ?thesis
    using h empty_ids_no_detail_fetch
      [of "ex_env (ex_response 200 ex_empty_body) PNone" "[]" ex_query "[]"]
    by (simp add: detail_fetch_calls_def)
qed

section \<open>Properties of the Extractor\<close>

text \<open>
  C1. On a document whose article-set holds a single article node, which
  \<open>xmltodict.parse\<close> delivers as a dict and not as a list of one, the loop runs over the
  keys of that dict and the first \<open>.get\<close> on a key raises \<open>AttributeError\<close>: no record is
  returned.
\<close>

theorem parse_pubmed_xml_single_article:
  "parse_pubmed_xml (ex_env (ex_response 200 PNone) ex_single_doc) (PStr []) [] =
     (Inl AttributeError, [debug_notice ex_single_doc])"
  by (simp add: parse_pubmed_xml_def ex_env_def Let_def ex_single_doc_def py_get_def py_iter_def
      ex_article1_def article_record_def article_info_of_def)



text \<open>
  C3. An article node whose article-info node is an empty element has no title under the
  path citation, article-info, title. The lookup of the title is then a \<open>.get\<close> on
  \<open>None\<close>: it raises \<open>AttributeError\<close>, and the Extractor returns no record for the
  document, where a record titled "No Title Found" is asked for.
\<close>

theorem missing_title_empty_node_raises:
  "title_absent ex_article_empty
   \<and> article_info_of ex_article_empty = Inr PNone
   \<and> article_title PNone = Inl AttributeError
   \<and> article_record ex_repr ex_article_empty = Inl AttributeError
   \<and> parse_pubmed_xml (ex_env (ex_response 200 PNone) ex_empty_node_doc) (PStr []) [] =
       (Inl AttributeError, [debug_notice ex_empty_node_doc])"
proof -
  have a: "title_absent ex_article_empty"
    by (simp add: title_absent_def ex_article_empty_def)
  have i: "article_info_of ex_article_empty = Inr PNone"
    by (simp add: article_info_of_def ex_article_empty_def py_get_def)
  have t: "article_title PNone = Inl AttributeError"
    by (simp add: article_title_def py_get_def)
  have r: "article_record ex_repr ex_article_empty = Inl AttributeError"
    by (simp add: article_record_def i t)
  have p: "parse_pubmed_xml (ex_env (ex_response 200 PNone) ex_empty_node_doc) (PStr []) [] =
       (Inl AttributeError, [debug_notice ex_empty_node_doc])"
    by (simp add: parse_pubmed_xml_def ex_env_def Let_def ex_empty_node_doc_def py_get_def
        py_iter_def ex_article1_record r)
  from a i t r p show ?thesis by simp
qed

text \<open>
  C4. An author entry whose given-name and family-name elements are both empty carries
  \<open>None\<close> under both keys. Its display name is empty, but the f-string formats \<open>None\<close>
  as the text "None": the name built is "None None", it is not empty, and it is appended
  to the authors of the record, where the entry is to add nothing.
\<close>

theorem empty_names_appended:
  "name_part ex_author_none (ascii ''ForeName'') = []
   \<and> name_part ex_author_none (ascii ''LastName'') = []
   \<and> display_name ex_author_none = []
   \<and> full_name_of ex_repr ex_author_none = Inr (ascii ''None None'')
   \<and> authors_of ex_repr (PList [ex_author1, ex_author_none]) =
       Inr [ascii ''Jane Doe'', ascii ''None None'']
   \<and> fst (parse_pubmed_xml (ex_env (ex_response 200 PNone) ex_none_names_doc) (PStr []) []) =
       Inr [ex_record_none_names, ex_record2]"
proof -
  have n: "name_part ex_author_none (ascii ''ForeName'') = []"
    "name_part ex_author_none (ascii ''LastName'') = []"
    by (simp_all add: name_part_def ex_author_none_def)
  have d: "display_name ex_author_none = []"
    by (simp add: display_name_def n py_strip_blank)
  have f: "full_name_of ex_repr ex_author_none = Inr (ascii ''None None'')"
    by (simp add: full_name_of_def ex_author_none_def py_get_def py_format_def py_strip_def
        py_isspace_def ascii_def)
  have a: "authors_of ex_repr (PList [ex_author1, ex_author_none]) =
       Inr [ascii ''Jane Doe'', ascii ''None None'']"
    by (simp add: authors_of_def ex_author1_name f)
  have l: "affiliations_of (PList [ex_author1, ex_author_none]) =
       Inr [PStr (ascii ''Lab X''), PStr (ascii ''Lab Y'')]"
    by (simp add: affiliations_of_def ex_author1_def ex_author_none_def py_get_def
        py_contains_def py_getitem_def)
  have r: "article_record ex_repr ex_article_none_names = Inr ex_record_none_names"
    by (simp add: article_record_def article_info_of_def article_title_def
        article_author_list_def ex_article_none_names_def py_get_def a l make_record_def
        ex_record_none_names_def)
  have p: "fst (parse_pubmed_xml (ex_env (ex_response 200 PNone) ex_none_names_doc) (PStr []) []) =
       Inr [ex_record_none_names, ex_record2]"
    by (simp add: parse_pubmed_xml_def ex_env_def Let_def ex_none_names_doc_def py_get_def
        py_iter_def r ex_article2_record)
  from n d f a p show ?thesis by simp
qed



text \<open>
  C9. Every record that \<open>parse_pubmed_xml\<close> returns is a dict with exactly the keys
  "title", "authors" and "affiliations", in which "authors" is a list of non-empty strings
  and "affiliations" is a list.
\<close>

theorem records_shape:
  assumes "fst (parse_pubmed_xml ev xml_data tr) = Inr records"
  shows "\<forall>r\<in>set records. \<exists>title authors affiliations.
           r = PDict [(ascii ''title'', title),
                      (ascii ''authors'', PList (map PStr authors)),
                      (ascii ''affiliations'', PList affiliations)]
           \<and> [] \<notin> set authors"
proof
  fix r
  assume r: "r \<in> set records"
  from assms obtain items where "articles_loop (py_repr ev) items [] = Inr records"
    by (auto simp: parse_pubmed_xml_def Let_def split: sum.splits)
  from articles_loop_all2 [OF this]
  have "list_all2 (\<lambda>a r. article_record (py_repr ev) a = Inr r) items records"
    by simp
  with r obtain a where "article_record (py_repr ev) a = Inr r"
    by (auto simp: list_all2_conv_all_nth in_set_conv_nth)
  from article_record_shape [OF this]
  show "\<exists>title authors affiliations.
           r = PDict [(ascii ''title'', title),
                      (ascii ''authors'', PList (map PStr authors)),
                      (ascii ''affiliations'', PList affiliations)]
           \<and> [] \<notin> set authors"
    by (simp add: make_record_def)
qed

theorem records_shape_witness:
  "fst (parse_pubmed_xml (ex_env (ex_response 200 PNone) ex_doc) (PStr []) []) =
     Inr [ex_record1, ex_record2]
   \<and> (\<exists>title authors affiliations.
           ex_record1 = PDict [(ascii ''title'', title),
                               (ascii ''authors'', PList (map PStr authors)),
                               (ascii ''affiliations'', PList affiliations)]
           \<and> [] \<notin> set authors)
   \<and> (\<exists>title authors affiliations.
           ex_record2 = PDict [(ascii ''title'', title),
                               (ascii ''authors'', PList (map PStr authors)),
                               (ascii ''affiliations'', PList affiliations)]
           \<and> [] \<notin> set authors)"
proof -
  have h: "fst (parse_pubmed_xml (ex_env (ex_response 200 PNone) ex_doc) (PStr []) []) =
     Inr [ex_record1, ex_record2]"
    by (simp add: ex_doc_records)
  from h records_shape [OF h] show ?thesis by simp
qed

end
